theory Spec2Isabelle
  imports Complex_Main
begin

section \<open>Values shared by the pages\<close>

text \<open>
  The pages are React components: their state is the tuple of \<open>useState\<close> cells, their
  handlers are functions from state to state, and everything a handler does to the
  outside (a network call through \<open>api\<close>, an invalidation of a react-query key, a toast)
  is appended to a log kept in the state. A JavaScript string is a \<open>string\<close>, one
  \<open>char\<close> per code unit (code units above 255 are outside the model).
\<close>

datatype jsnum = NaN | PosInfinity | NegInfinity | Finite rat

text \<open>\<open>Number.isFinite(n)\<close>, \<open>n > 0\<close> and the truthiness of a number (\<open>!n\<close> negated).\<close>

fun Number_isFinite :: "jsnum \<Rightarrow> bool" where
  "Number_isFinite (Finite _) = True"
| "Number_isFinite _ = False"

fun js_positive :: "jsnum \<Rightarrow> bool" where
  "js_positive (Finite q) = (q > 0)"
| "js_positive PosInfinity = True"
| "js_positive _ = False"

fun js_truthy :: "jsnum \<Rightarrow> bool" where
  "js_truthy (Finite q) = (q \<noteq> 0)"
| "js_truthy NaN = False"
| "js_truthy _ = True"

text \<open>
  The built-in \<open>Number(string)\<close> is a parameter \<open>num\<close> of every handler that calls it.
  \<open>Number_digits\<close> is its value on a short string of decimal digits (the form
  \<open>id.toString()\<close> gives for the ids of the concrete scenarios below: ''7'', ''3''); on
  other strings (signs, fractions, surrounding white space, more digits than a double
  holds exactly) it is not \<open>Number\<close>, and it is only used to instantiate \<open>num\<close> at
  those ids.
\<close>

definition is_digit :: "char \<Rightarrow> bool" where
  "is_digit c = (48 \<le> (of_char c :: nat) \<and> (of_char c :: nat) \<le> 57)"

definition digit_value :: "char \<Rightarrow> nat" where
  "digit_value c = (of_char c :: nat) - 48"

definition Number_digits :: "string \<Rightarrow> jsnum" where
  "Number_digits s =
     (if list_all is_digit s
      then Finite (of_nat (foldl (\<lambda>acc c. 10 * acc + digit_value c) 0 s))
      else NaN)"

text \<open>A react-query key is the array of its parts; a toast carries i18n keys.\<close>

type_synonym query_key = "string list"

record toast =
  destructive :: bool
  title :: string
  description :: string

datatype group_ref = GroupNum int | GroupStr string

datatype api_call =
    ActivateStudent int jsnum string
      \<comment> \<open>POST /admin/activate-student: student_id, group_id, level\<close>
  | AddStudents jsnum "int list"
      \<comment> \<open>POST /admin/groups/add-students: group_id, student_ids\<close>
  | RemoveStudent jsnum int
      \<comment> \<open>POST /admin/groups/remove-student: group_id, student_id\<close>
  | SaveAttendance jsnum string "(int \<times> bool) list"
      \<comment> \<open>POST /teacher/attendance: group_id, date, attendance entries\<close>
  | CreateGroup string string jsnum "jsnum option"
      \<comment> \<open>POST /admin/groups: name, level, main_teacher_id, assistant_teacher_id or null\<close>
  | UpdateGroup group_ref string string jsnum "jsnum option"
      \<comment> \<open>PUT /admin/groups/:id: id, name, level, main_teacher_id, assistant_teacher_id or null\<close>

record effects =
  posts :: "api_call list"
  invalidated :: "query_key list"
  toasts :: "toast list"

text \<open>How the promise of a mutation settles: \<open>Resolved\<close> carries the response data,
  \<open>Rejected\<close> the error. Of an axios error the handlers read
  \<open>err.response.data.message\<close>, \<open>err.response.data.error\<close> and \<open>err.message\<close>; an absent
  field is the empty string (\<open>||\<close> skips both).\<close>

record api_error =
  response_message :: string
  response_error :: string
  error_message :: string

datatype 'a outcome = Resolved 'a | Rejected api_error

definition getApiErrorMessage :: "api_error \<Rightarrow> string \<Rightarrow> string" where
  "getApiErrorMessage err fallback =
     (if response_message err \<noteq> [] then response_message err
      else if response_error err \<noteq> [] then response_error err
      else if error_message err \<noteq> [] then error_message err
      else fallback)"

text \<open>A zod issue: the field it is on (\<open>path[0]\<close>) and its message.\<close>

type_synonym issue = "string \<times> string"

section \<open>AdminNewStudents: activating a new student\<close>

record new_student =
  student_id :: int
  full_name :: string
  phone :: string

definition activateSchema :: "int \<Rightarrow> string \<Rightarrow> string \<Rightarrow> issue list" where
  "activateSchema studentId groupId level =
     (if studentId > 0 then [] else [(''studentId'', ''Student is required'')]) @
     (if length groupId \<ge> 1 then [] else [(''groupId'', ''Group is required'')]) @
     (if length level \<ge> 1 then [] else [(''level'', ''Level is required'')])"

record activate_page = effects +
  selectedStudent :: "new_student option"
  selectedGroupId :: string
  selectedLevel :: string
  isActivateOpen :: bool
  activateTouched :: bool
  isActivating :: bool

text \<open>\<open>activateSchema.safeParse({studentId: selectedStudent?.id ?? 0, ...})\<close>: the issues.\<close>

definition activateValidation :: "'a activate_page_scheme \<Rightarrow> issue list" where
  "activateValidation s =
     activateSchema (case selectedStudent s of None \<Rightarrow> 0 | Some st \<Rightarrow> student_id st)
       (selectedGroupId s) (selectedLevel s)"

definition isActivateValid :: "'a activate_page_scheme \<Rightarrow> bool" where
  "isActivateValid s = (activateValidation s = [])"

definition isActivateDisabled :: "'a activate_page_scheme \<Rightarrow> bool" where
  "isActivateDisabled s = (\<not> isActivateValid s \<or> isActivating s)"

text \<open>
  \<open>activateMutation\<close>: \<open>mutate\<close> runs \<open>mutationFn\<close> (one POST) and the mutation is pending
  until the promise settles; then \<open>onSuccess\<close> or \<open>onError\<close> runs.
\<close>

definition activateMutation_mutate ::
  "int \<Rightarrow> jsnum \<Rightarrow> string \<Rightarrow> 'a activate_page_scheme \<Rightarrow> 'a activate_page_scheme" where
  "activateMutation_mutate studentId groupId level s =
     s\<lparr>posts := posts s @ [ActivateStudent studentId groupId level], isActivating := True\<rparr>"

definition activateMutation_onSuccess ::
  "'a activate_page_scheme \<Rightarrow> 'a activate_page_scheme" where
  "activateMutation_onSuccess s =
     s\<lparr>invalidated := invalidated s @ [[''newStudents''], [''adminStudents''], [''adminGroups'']],
       isActivateOpen := False,
       selectedStudent := None,
       selectedGroupId := [],
       selectedLevel := [],
       toasts := toasts s @
         [\<lparr>destructive = False, title = ''admin.newStudents.activateSuccess'',
           description = ''admin.newStudents.activateSuccessDesc''\<rparr>]\<rparr>"

definition activateMutation_onError ::
  "'a activate_page_scheme \<Rightarrow> 'a activate_page_scheme" where
  "activateMutation_onError s =
     s\<lparr>toasts := toasts s @
         [\<lparr>destructive = True, title = ''common.error'',
           description = ''admin.newStudents.activateError''\<rparr>]\<rparr>"

definition activateMutation_settle ::
  "unit outcome \<Rightarrow> 'a activate_page_scheme \<Rightarrow> 'a activate_page_scheme" where
  "activateMutation_settle r s =
     (if \<not> isActivating s then s
      else case r of
        Resolved _ \<Rightarrow> activateMutation_onSuccess (s\<lparr>isActivating := False\<rparr>)
      | Rejected _ \<Rightarrow> activateMutation_onError (s\<lparr>isActivating := False\<rparr>))"

definition handleActivate ::
  "(string \<Rightarrow> jsnum) \<Rightarrow> 'a activate_page_scheme \<Rightarrow> 'a activate_page_scheme" where
  "handleActivate num s =
     (if \<not> isActivateValid s
      then s\<lparr>activateTouched := True,
             toasts := toasts s @
               [\<lparr>destructive = True, title = ''admin.newStudents.validationError'',
                 description = ''admin.newStudents.fixFields''\<rparr>]\<rparr>
      else case selectedStudent s of
        Some st \<Rightarrow>
          activateMutation_mutate (student_id st) (num (selectedGroupId s)) (selectedLevel s) s
      | None \<Rightarrow> s)"
  \<comment> \<open>\<open>selectedStudent!.id\<close> on null would throw; the schema has already failed there
      (the default student id 0 is not positive), see \<open>valid_has_student\<close>.\<close>

text \<open>The submit button: \<open>onClick={handleActivate} disabled={isActivateDisabled}\<close>.\<close>

definition clickActivate ::
  "(string \<Rightarrow> jsnum) \<Rightarrow> 'a activate_page_scheme \<Rightarrow> 'a activate_page_scheme" where
  "clickActivate num s = (if isActivateDisabled s then s else handleActivate num s)"

text \<open>The state of the scenario: student 42, group 7 of level B1 chosen, dialog open.\<close>

definition scenario_activate :: activate_page where
  "scenario_activate =
     \<lparr>posts = [], invalidated = [], toasts = [],
      selectedStudent = Some \<lparr>student_id = 42, full_name = ''Ali'', phone = ''998901234567''\<rparr>,
      selectedGroupId = ''7'', selectedLevel = ''B1'',
      isActivateOpen = True, activateTouched = True, isActivating = False\<rparr>"

section \<open>Validation layer: phone numbers and trimming\<close>

text \<open>
  \<open>String.prototype.trim\<close> removes ECMAScript white space and line terminators from
  both ends; these are the ones among the code units below 256.
\<close>

definition is_js_space :: "char \<Rightarrow> bool" where
  "is_js_space c = ((of_char c :: nat) \<in> {9, 10, 11, 12, 13, 32, 160})"

definition trim :: "string \<Rightarrow> string" where
  "trim s = rev (dropWhile is_js_space (rev (dropWhile is_js_space s)))"






section \<open>AdminGroups: the create and edit dialog of the groups list\<close>

record group_form =
  name :: string
  level :: string
  main_teacher_id :: string
  assistant_teacher_id :: string

record group_touched =
  t_name :: bool
  t_level :: bool
  t_main_teacher_id :: bool
  t_assistant_teacher_id :: bool

definition groupSchema :: "group_form \<Rightarrow> issue list" where
  "groupSchema f =
     (if length (trim (name f)) \<ge> 1 then [] else [(''name'', ''Group name is required'')]) @
     (if length (trim (level f)) \<ge> 1 then [] else [(''level'', ''Level is required'')]) @
     (if length (trim (main_teacher_id f)) \<ge> 1 then []
      else [(''main_teacher_id'', ''Main teacher is required'')])"
  \<comment> \<open>\<open>assistant_teacher_id: z.string().optional()\<close> accepts every string\<close>

text \<open>
  \<open>data.assistant_teacher_id ? Number(data.assistant_teacher_id) : null\<close>, in the
  \<open>mutationFn\<close> of both group pages.
\<close>

definition assistant_payload :: "(string \<Rightarrow> jsnum) \<Rightarrow> string \<Rightarrow> jsnum option" where
  "assistant_payload num a = (if a \<noteq> [] then Some (num a) else None)"

definition empty_group_form :: group_form where
  "empty_group_form = \<lparr>name = [], level = [], main_teacher_id = [], assistant_teacher_id = []\<rparr>"

definition untouched :: group_touched where
  "untouched = \<lparr>t_name = False, t_level = False, t_main_teacher_id = False,
     t_assistant_teacher_id = False\<rparr>"

record groups_page = effects +
  isDialogOpen :: bool
  editingGroupId :: "int option"
  groupForm :: group_form
  touched :: group_touched
  isSaving :: bool

definition isFormValid :: "'a groups_page_scheme \<Rightarrow> bool" where
  "isFormValid s = (groupSchema (groupForm s) = [])"

definition isSubmitDisabled :: "'a groups_page_scheme \<Rightarrow> bool" where
  "isSubmitDisabled s = (\<not> isFormValid s \<or> isSaving s)"

definition createGroupMutation_mutate ::
  "(string \<Rightarrow> jsnum) \<Rightarrow> group_form \<Rightarrow> 'a groups_page_scheme \<Rightarrow> 'a groups_page_scheme" where
  "createGroupMutation_mutate num d s =
     s\<lparr>posts := posts s @
          [CreateGroup (name d) (level d) (num (main_teacher_id d))
             (assistant_payload num (assistant_teacher_id d))],
       isSaving := True\<rparr>"

definition updateGroupMutation_mutate ::
  "(string \<Rightarrow> jsnum) \<Rightarrow> int \<Rightarrow> group_form \<Rightarrow> 'a groups_page_scheme \<Rightarrow> 'a groups_page_scheme"
  where
  "updateGroupMutation_mutate num gid d s =
     s\<lparr>posts := posts s @
          [UpdateGroup (GroupNum gid) (name d) (level d) (num (main_teacher_id d))
             (assistant_payload num (assistant_teacher_id d))],
       isSaving := True\<rparr>"

text \<open>\<open>if (editingGroupId)\<close> is false for \<open>null\<close> and for 0.\<close>

definition handleSubmit ::
  "(string \<Rightarrow> jsnum) \<Rightarrow> 'a groups_page_scheme \<Rightarrow> 'a groups_page_scheme" where
  "handleSubmit num s =
     (if \<not> isFormValid s
      then s\<lparr>touched := \<lparr>t_name = True, t_level = True, t_main_teacher_id = True,
                          t_assistant_teacher_id = True\<rparr>,
             toasts := toasts s @
               [\<lparr>destructive = True, title = ''admin.groups.validationError'',
                 description = ''admin.groups.fixFields''\<rparr>]\<rparr>
      else case editingGroupId s of
        Some gid \<Rightarrow>
          (if gid \<noteq> 0 then updateGroupMutation_mutate num gid (groupForm s) s
           else createGroupMutation_mutate num (groupForm s) s)
      | None \<Rightarrow> createGroupMutation_mutate num (groupForm s) s)"

text \<open>The submit button: \<open>onClick={handleSubmit} disabled={isSubmitDisabled}\<close>.\<close>

definition clickSubmit ::
  "(string \<Rightarrow> jsnum) \<Rightarrow> 'a groups_page_scheme \<Rightarrow> 'a groups_page_scheme" where
  "clickSubmit num s = (if isSubmitDisabled s then s else handleSubmit num s)"

definition openCreateDialog :: "'a groups_page_scheme \<Rightarrow> 'a groups_page_scheme" where
  "openCreateDialog s =
     s\<lparr>editingGroupId := None, groupForm := empty_group_form, touched := untouched,
       isDialogOpen := True\<rparr>"


definition groups_page_initial :: groups_page where
  "groups_page_initial =
     \<lparr>posts = [], invalidated = [], toasts = [],
      isDialogOpen = False, editingGroupId = None, groupForm = empty_group_form,
      touched = untouched, isSaving = False\<rparr>"

section \<open>AdminGroupDetail: editing a group and removing a student\<close>

text \<open>
  \<open>editGroup\<close> has the fields of \<open>group_form\<close>; its optional \<open>assistant_teacher_id\<close> is
  always written as a string by this page. \<open>editErrors\<close> and the result of
  \<open>validateEditGroup\<close> are objects from field to message, here the list of their
  entries in insertion order; a message is its i18n key.
\<close>

definition validateEditGroup :: "group_form \<Rightarrow> issue list" where
  "validateEditGroup g =
     (let trimmedEditName = trim (name g) in
        (if trimmedEditName = [] then [(''name'', ''admin.groups.detail.nameRequired'')]
         else if length trimmedEditName < 2
           then [(''name'', ''admin.groups.detail.nameTooShort'')]
         else if length trimmedEditName > 80
           then [(''name'', ''admin.groups.detail.nameTooLong'')]
         else []) @
        (if trim (level g) = [] then [(''level'', ''admin.groups.detail.levelRequired'')]
         else []) @
        (if main_teacher_id g = []
         then [(''main_teacher_id'', ''admin.groups.detail.mainTeacherRequired'')] else []) @
        (if assistant_teacher_id g \<noteq> [] \<and> assistant_teacher_id g = main_teacher_id g
         then [(''assistant_teacher_id'', ''admin.groups.detail.assistantDifferent'')]
         else []))"

record group_detail_page = effects +
  groupId :: string
  isEditOpen :: bool
  initialEditGroup :: "group_form option"
  editErrors :: "issue list"
  editGroup :: group_form
  updatePending :: bool
  removePending :: bool

definition isEditValid :: "'a group_detail_page_scheme \<Rightarrow> bool" where
  "isEditValid s = (validateEditGroup (editGroup s) = [])"

definition normalize :: "group_form \<Rightarrow> group_form" where
  "normalize d =
     \<lparr>name = trim (name d), level = trim (level d), main_teacher_id = main_teacher_id d,
      assistant_teacher_id = assistant_teacher_id d\<rparr>"

definition isEditDirty :: "'a group_detail_page_scheme \<Rightarrow> bool" where
  "isEditDirty s =
     (case initialEditGroup s of
        None \<Rightarrow> False
      | Some init \<Rightarrow> normalize (editGroup s) \<noteq> normalize init)"

definition detail_updateGroupMutation_mutate ::
  "(string \<Rightarrow> jsnum) \<Rightarrow> group_form \<Rightarrow> 'a group_detail_page_scheme \<Rightarrow>
   'a group_detail_page_scheme" where
  "detail_updateGroupMutation_mutate num d s =
     s\<lparr>posts := posts s @
          [UpdateGroup (GroupStr (groupId s)) (trim (name d)) (trim (level d))
             (num (main_teacher_id d)) (assistant_payload num (assistant_teacher_id d))],
       updatePending := True\<rparr>"

definition handleUpdateGroup ::
  "(string \<Rightarrow> jsnum) \<Rightarrow> 'a group_detail_page_scheme \<Rightarrow> 'a group_detail_page_scheme" where
  "handleUpdateGroup num s =
     (let errors = validateEditGroup (editGroup s);
          s1 = s\<lparr>editErrors := errors\<rparr>
      in if length errors > 0 then s1
         else if \<not> isEditDirty s
           then s1\<lparr>toasts := toasts s1 @
                  [\<lparr>destructive = False, title = ''admin.groups.detail.noChanges'',
                    description = ''admin.groups.detail.nothingToUpdate''\<rparr>]\<rparr>
         else detail_updateGroupMutation_mutate num
                ((editGroup s)\<lparr>name := trim (name (editGroup s)),
                                level := trim (level (editGroup s))\<rparr>) s1)"

text \<open>The form is submitted through its submit button, which is disabled while the
  update is pending, the form is not dirty or not valid.\<close>

definition submitEditForm ::
  "(string \<Rightarrow> jsnum) \<Rightarrow> 'a group_detail_page_scheme \<Rightarrow> 'a group_detail_page_scheme" where
  "submitEditForm num s =
     (if updatePending s \<or> \<not> isEditDirty s \<or> \<not> isEditValid s then s
      else handleUpdateGroup num s)"


definition group_detail_initial :: "string \<Rightarrow> group_detail_page" where
  "group_detail_initial gid =
     \<lparr>posts = [], invalidated = [], toasts = [],
      groupId = gid, isEditOpen = False, initialEditGroup = None, editErrors = [],
      editGroup = empty_group_form, updatePending = False, removePending = False\<rparr>"

text \<open>Removing a student: \<open>confirm(...)\<close> returns the operator's answer \<open>confirmed\<close>.\<close>

definition removeStudentMutation_mutate ::
  "(string \<Rightarrow> jsnum) \<Rightarrow> int \<Rightarrow> 'a group_detail_page_scheme \<Rightarrow> 'a group_detail_page_scheme"
  where
  "removeStudentMutation_mutate num studentId s =
     s\<lparr>posts := posts s @ [RemoveStudent (num (groupId s)) studentId],
       removePending := True\<rparr>"

definition removeStudentMutation_onSuccess ::
  "'a group_detail_page_scheme \<Rightarrow> 'a group_detail_page_scheme" where
  "removeStudentMutation_onSuccess s =
     s\<lparr>invalidated := invalidated s @ [[''adminGroupDetail'', groupId s]],
       toasts := toasts s @
         [\<lparr>destructive = False, title = ''common.success'',
           description = ''admin.groups.detail.removeSuccess''\<rparr>]\<rparr>"

definition removeStudentMutation_onError ::
  "'a group_detail_page_scheme \<Rightarrow> 'a group_detail_page_scheme" where
  "removeStudentMutation_onError s =
     s\<lparr>toasts := toasts s @
         [\<lparr>destructive = True, title = ''common.error'',
           description = ''admin.groups.detail.removeError''\<rparr>]\<rparr>"

definition removeStudentMutation_settle ::
  "unit outcome \<Rightarrow> 'a group_detail_page_scheme \<Rightarrow> 'a group_detail_page_scheme" where
  "removeStudentMutation_settle r s =
     (if \<not> removePending s then s
      else case r of
        Resolved _ \<Rightarrow> removeStudentMutation_onSuccess (s\<lparr>removePending := False\<rparr>)
      | Rejected _ \<Rightarrow> removeStudentMutation_onError (s\<lparr>removePending := False\<rparr>))"

definition handleRemoveStudent ::
  "(string \<Rightarrow> jsnum) \<Rightarrow> bool \<Rightarrow> int \<Rightarrow> 'a group_detail_page_scheme \<Rightarrow>
   'a group_detail_page_scheme" where
  "handleRemoveStudent num confirmed studentId s =
     (if confirmed then removeStudentMutation_mutate num studentId s else s)"

text \<open>The remove button of a row: disabled while a removal is pending.\<close>

definition clickRemove ::
  "(string \<Rightarrow> jsnum) \<Rightarrow> bool \<Rightarrow> int \<Rightarrow> 'a group_detail_page_scheme \<Rightarrow>
   'a group_detail_page_scheme" where
  "clickRemove num confirmed studentId s =
     (if removePending s then s else handleRemoveStudent num confirmed studentId s)"

text \<open>
  What an invalidation reaches: \<open>invalidateQueries({queryKey})\<close> marks stale every
  cached query whose key starts with \<open>queryKey\<close> (react-query's partial matching).
\<close>

fun partialMatchKey :: "query_key \<Rightarrow> query_key \<Rightarrow> bool" where
  "partialMatchKey [] k = True"
| "partialMatchKey (f # fs) [] = False"
| "partialMatchKey (f # fs) (k # ks) = (f = k \<and> partialMatchKey fs ks)"

definition marks_stale :: "query_key list \<Rightarrow> query_key \<Rightarrow> bool" where
  "marks_stale filters k = list_ex (\<lambda>f. partialMatchKey f k) filters"

section \<open>AddStudentsDialog: batch selection\<close>

text \<open>
  \<open>Array.from(new Set(xs))\<close>: the set is filled in the order of \<open>xs\<close> and keeps the first
  occurrence of every value; \<open>Set_add_all acc xs\<close> adds \<open>xs\<close> to a set whose insertion
  order is \<open>acc\<close>.
\<close>

fun Set_add_all :: "'a list \<Rightarrow> 'a list \<Rightarrow> 'a list" where
  "Set_add_all acc [] = acc"
| "Set_add_all acc (x # xs) = Set_add_all (if x \<in> set acc then acc else acc @ [x]) xs"

definition Array_from_Set :: "'a list \<Rightarrow> 'a list" where
  "Array_from_Set xs = Set_add_all [] xs"

record add_students_dialog = effects +
  dialog_groupId :: string
  isOpen :: bool
  searchQuery :: string
  selectedStudents :: "int list"
  selectionError :: string
  isSubmitting :: bool

definition isGroupIdValid :: "(string \<Rightarrow> jsnum) \<Rightarrow> 'a add_students_dialog_scheme \<Rightarrow> bool" where
  "isGroupIdValid num s =
     (Number_isFinite (num (dialog_groupId s)) \<and> js_positive (num (dialog_groupId s)))"

definition handleClose :: "'a add_students_dialog_scheme \<Rightarrow> 'a add_students_dialog_scheme" where
  "handleClose s = s\<lparr>selectionError := [], selectedStudents := [], searchQuery := [],
     isOpen := False\<rparr>"

definition handleRequestClose ::
  "'a add_students_dialog_scheme \<Rightarrow> 'a add_students_dialog_scheme" where
  "handleRequestClose s = (if isSubmitting s then s else handleClose s)"

definition addStudentsMutation_mutate ::
  "(string \<Rightarrow> jsnum) \<Rightarrow> int list \<Rightarrow> 'a add_students_dialog_scheme \<Rightarrow>
   'a add_students_dialog_scheme" where
  "addStudentsMutation_mutate num studentIds s =
     s\<lparr>posts := posts s @ [AddStudents (num (dialog_groupId s)) studentIds],
       isSubmitting := True\<rparr>"

definition addStudentsMutation_onSuccess ::
  "'a add_students_dialog_scheme \<Rightarrow> 'a add_students_dialog_scheme" where
  "addStudentsMutation_onSuccess s =
     handleClose
       (s\<lparr>invalidated := invalidated s @
            [[''adminGroupDetail'', dialog_groupId s], [''newStudents'']],
          toasts := toasts s @
            [\<lparr>destructive = False, title = ''common.success'',
              description = ''admin.groups.addSuccess''\<rparr>]\<rparr>)"

definition addStudentsMutation_onError ::
  "api_error \<Rightarrow> 'a add_students_dialog_scheme \<Rightarrow> 'a add_students_dialog_scheme" where
  "addStudentsMutation_onError err s =
     s\<lparr>toasts := toasts s @
         [\<lparr>destructive = True, title = ''common.error'',
           description = getApiErrorMessage err ''admin.groups.updateError''\<rparr>]\<rparr>"

definition addStudentsMutation_settle ::
  "unit outcome \<Rightarrow> 'a add_students_dialog_scheme \<Rightarrow> 'a add_students_dialog_scheme" where
  "addStudentsMutation_settle r s =
     (if \<not> isSubmitting s then s
      else case r of
        Resolved _ \<Rightarrow> addStudentsMutation_onSuccess (s\<lparr>isSubmitting := False\<rparr>)
      | Rejected err \<Rightarrow> addStudentsMutation_onError err (s\<lparr>isSubmitting := False\<rparr>))"

definition handleToggleStudent ::
  "int \<Rightarrow> 'a add_students_dialog_scheme \<Rightarrow> 'a add_students_dialog_scheme" where
  "handleToggleStudent studentId s =
     s\<lparr>selectionError := [],
       selectedStudents :=
         (if studentId \<in> set (selectedStudents s)
          then filter (\<lambda>i. i \<noteq> studentId) (selectedStudents s)
          else selectedStudents s @ [studentId])\<rparr>"

definition handleAddStudents ::
  "(string \<Rightarrow> jsnum) \<Rightarrow> 'a add_students_dialog_scheme \<Rightarrow> 'a add_students_dialog_scheme" where
  "handleAddStudents num s =
     (if \<not> isGroupIdValid num s then s\<lparr>selectionError := ''admin.groups.invalidGroupId''\<rparr>
      else let uniqueIds = Array_from_Set (selectedStudents s) in
        if length uniqueIds = 0 then s\<lparr>selectionError := ''admin.groups.selectAtLeastOne''\<rparr>
        else if length uniqueIds > 100
          then s\<lparr>selectionError := ''admin.groups.maxStudentsError''\<rparr>
        else addStudentsMutation_mutate num (selectedStudents s) s)"

text \<open>\<open>filtered\<close> is \<open>filteredStudents\<close>, the students the search currently shows.\<close>

definition handleSelectAllFiltered ::
  "new_student list \<Rightarrow> 'a add_students_dialog_scheme \<Rightarrow> 'a add_students_dialog_scheme" where
  "handleSelectAllFiltered filtered s =
     (let s1 = s\<lparr>selectionError := []\<rparr>;
          ids = map student_id filtered;
          next = Array_from_Set (selectedStudents s @ ids)
      in if length next > 100 then s1\<lparr>selectionError := ''admin.groups.maxStudentsError''\<rparr>
         else s1\<lparr>selectedStudents := next\<rparr>)"

definition handleClearSelection ::
  "'a add_students_dialog_scheme \<Rightarrow> 'a add_students_dialog_scheme" where
  "handleClearSelection s = s\<lparr>selectionError := [], selectedStudents := []\<rparr>"

text \<open>
  The dialog as the parent mounts it, and what can happen to it afterwards. The events
  run the handlers in every state: the \<open>disabled\<close> conditions of the buttons are not part
  of \<open>dialog_step\<close>, so the runs of the program are among the runs considered here.
\<close>

definition add_students_initial :: "string \<Rightarrow> add_students_dialog" where
  "add_students_initial gid =
     \<lparr>posts = [], invalidated = [], toasts = [],
      dialog_groupId = gid, isOpen = True, searchQuery = [], selectedStudents = [],
      selectionError = [], isSubmitting = False\<rparr>"

datatype dialog_event =
    ToggleStudent int
  | SelectAllFiltered "new_student list"
  | ClearSelection
  | AddClicked
  | RequestClose
  | SetSearch string
  | Reopen
  | Settled "unit outcome"

fun dialog_step ::
  "(string \<Rightarrow> jsnum) \<Rightarrow> add_students_dialog \<Rightarrow> dialog_event \<Rightarrow> add_students_dialog" where
  "dialog_step num s (ToggleStudent i) = handleToggleStudent i s"
| "dialog_step num s (SelectAllFiltered fs) = handleSelectAllFiltered fs s"
| "dialog_step num s ClearSelection = handleClearSelection s"
| "dialog_step num s AddClicked = handleAddStudents num s"
| "dialog_step num s RequestClose = handleRequestClose s"
| "dialog_step num s (SetSearch q) = s\<lparr>searchQuery := q\<rparr>"
| "dialog_step num s Reopen = s\<lparr>isOpen := True\<rparr>"
| "dialog_step num s (Settled r) = addStudentsMutation_settle r s"

definition dialog_run ::
  "(string \<Rightarrow> jsnum) \<Rightarrow> string \<Rightarrow> dialog_event list \<Rightarrow> add_students_dialog" where
  "dialog_run num gid evs = foldl (dialog_step num) (add_students_initial gid) evs"

text \<open>An add-students call is well formed when it carries 1 to 100 ids, none twice.\<close>

fun well_formed_batch :: "api_call \<Rightarrow> bool" where
  "well_formed_batch (AddStudents g ids) = (distinct ids \<and> 1 \<le> length ids \<and> length ids \<le> 100)"
| "well_formed_batch _ = True"

section \<open>TeacherAttendance: the attendance sheet\<close>

record group_student =
  gs_id :: int
  gs_full_name :: string

type_synonym marks = "int \<rightharpoonup> bool"

record attendance_page = effects +
  selectedDate :: string
  att_selectedGroupId :: string
  attendanceByKey :: "string \<rightharpoonup> marks"
  students :: "group_student list option"
  studentsLoading :: bool
  savePending :: bool

text \<open>\<open>key\<close> and \<open>attendanceForSelection\<close>, recomputed on every render.\<close>

definition att_key :: "'a attendance_page_scheme \<Rightarrow> string" where
  "att_key s =
     (if att_selectedGroupId s \<noteq> [] then att_selectedGroupId s @ '':'' @ selectedDate s else [])"

definition attendanceForSelection :: "'a attendance_page_scheme \<Rightarrow> marks" where
  "attendanceForSelection s =
     (if att_key s \<noteq> []
      then (case attendanceByKey s (att_key s) of Some m \<Rightarrow> m | None \<Rightarrow> Map.empty)
      else Map.empty)"

text \<open>\<open>for (const s of students) initial[s.id] = true\<close>.\<close>

definition all_present :: "group_student list \<Rightarrow> marks" where
  "all_present sts = foldl (\<lambda>initial st. initial(gs_id st \<mapsto> True)) Map.empty sts"

text \<open>The effect that initialises the sheet of the selection when the students load.\<close>

definition att_initEffect :: "'a attendance_page_scheme \<Rightarrow> 'a attendance_page_scheme" where
  "att_initEffect s =
     (if att_key s = [] then s
      else case students s of
        None \<Rightarrow> s
      | Some sts \<Rightarrow>
          if length sts = 0 then s
          else (case attendanceByKey s (att_key s) of
                  Some _ \<Rightarrow> s
                | None \<Rightarrow> s\<lparr>attendanceByKey := (attendanceByKey s)(att_key s \<mapsto> all_present sts)\<rparr>))"

definition att_setStudentPresence ::
  "int \<Rightarrow> bool \<Rightarrow> 'a attendance_page_scheme \<Rightarrow> 'a attendance_page_scheme" where
  "att_setStudentPresence studentId present s =
     (if att_key s = [] then s
      else s\<lparr>attendanceByKey := (attendanceByKey s)
               (att_key s \<mapsto>
                  (case attendanceByKey s (att_key s) of Some m \<Rightarrow> m | None \<Rightarrow> Map.empty)
                    (studentId \<mapsto> present))\<rparr>)"

text \<open>\<open>(marks[s.id] ?? true) === true\<close> for every student, in the order of the list.\<close>

definition payloadAttendance :: "marks \<Rightarrow> group_student list \<Rightarrow> (int \<times> bool) list" where
  "payloadAttendance m sts =
     map (\<lambda>st. (gs_id st, (case m (gs_id st) of None \<Rightarrow> True | Some b \<Rightarrow> b) = True)) sts"

definition att_saveAttendanceMutation_mutate ::
  "jsnum \<Rightarrow> string \<Rightarrow> (int \<times> bool) list \<Rightarrow> 'a attendance_page_scheme \<Rightarrow>
   'a attendance_page_scheme" where
  "att_saveAttendanceMutation_mutate group_id date attendance s =
     s\<lparr>posts := posts s @ [SaveAttendance group_id date attendance], savePending := True\<rparr>"

text \<open>\<open>message\<close> is \<open>data?.message\<close> of the response, empty when absent.\<close>

definition att_saveAttendanceMutation_settle ::
  "string outcome \<Rightarrow> 'a attendance_page_scheme \<Rightarrow> 'a attendance_page_scheme" where
  "att_saveAttendanceMutation_settle r s =
     (if \<not> savePending s then s
      else case r of
        Resolved message \<Rightarrow>
          s\<lparr>savePending := False,
            toasts := toasts s @
              [\<lparr>destructive = False, title = ''common.success'',
                description =
                  (if message \<noteq> [] then message else ''teacher.attendance.saveSuccess'')\<rparr>]\<rparr>
      | Rejected _ \<Rightarrow>
          s\<lparr>savePending := False,
            toasts := toasts s @
              [\<lparr>destructive = True, title = ''common.error'',
                description = ''teacher.attendance.saveError''\<rparr>]\<rparr>)"

definition att_saveOnClick ::
  "(string \<Rightarrow> jsnum) \<Rightarrow> 'a attendance_page_scheme \<Rightarrow> 'a attendance_page_scheme" where
  "att_saveOnClick num s =
     (if \<not> js_truthy (num (att_selectedGroupId s)) \<or> att_key s = [] then s
      else case students s of
        None \<Rightarrow> s
      | Some sts \<Rightarrow>
          if length sts = 0 then s
          else att_saveAttendanceMutation_mutate (num (att_selectedGroupId s)) (selectedDate s)
                 (payloadAttendance (attendanceForSelection s) sts) s)"

text \<open>The save button: disabled without students, while saving and while loading.\<close>

definition att_clickSave ::
  "(string \<Rightarrow> jsnum) \<Rightarrow> 'a attendance_page_scheme \<Rightarrow> 'a attendance_page_scheme" where
  "att_clickSave num s =
     (if (case students s of None \<Rightarrow> 0 | Some sts \<Rightarrow> length sts) = 0 \<or> savePending s \<or>
         studentsLoading s
      then s else att_saveOnClick num s)"

text \<open>A sequence of clicks on the present and absent buttons of the rows, each a
  student id with the mark chosen.\<close>

definition att_markAll ::
  "(int \<times> bool) list \<Rightarrow> 'a attendance_page_scheme \<Rightarrow> 'a attendance_page_scheme" where
  "att_markAll clicks s = foldl (\<lambda>s' c. att_setStudentPresence (fst c) (snd c) s') s clicks"

text \<open>What the marking handlers and the initialisation effect leave alone.\<close>

definition att_same_frame ::
  "'a attendance_page_scheme \<Rightarrow> 'a attendance_page_scheme \<Rightarrow> bool" where
  "att_same_frame s' s =
     (posts s' = posts s \<and> students s' = students s \<and> savePending s' = savePending s \<and>
      studentsLoading s' = studentsLoading s \<and> att_selectedGroupId s' = att_selectedGroupId s \<and>
      selectedDate s' = selectedDate s)"

section \<open>Teacher GroupDetail: the attendance tab\<close>

record teacher_group_page = effects +
  tg_groupId :: string
  tg_selectedDate :: string
  attendanceByDate :: "string \<rightharpoonup> marks"
  tg_students :: "group_student list option"
  tg_savePending :: bool

definition attendanceForDate :: "'a teacher_group_page_scheme \<Rightarrow> marks" where
  "attendanceForDate s =
     (case attendanceByDate s (tg_selectedDate s) of Some m \<Rightarrow> m | None \<Rightarrow> Map.empty)"

definition tg_initEffect :: "'a teacher_group_page_scheme \<Rightarrow> 'a teacher_group_page_scheme" where
  "tg_initEffect s =
     (case tg_students s of
        None \<Rightarrow> s
      | Some sts \<Rightarrow>
          if length sts = 0 then s
          else (case attendanceByDate s (tg_selectedDate s) of
                  Some _ \<Rightarrow> s
                | None \<Rightarrow>
                    s\<lparr>attendanceByDate :=
                        (attendanceByDate s)(tg_selectedDate s \<mapsto> all_present sts)\<rparr>))"

definition tg_setStudentPresence ::
  "int \<Rightarrow> bool \<Rightarrow> 'a teacher_group_page_scheme \<Rightarrow> 'a teacher_group_page_scheme" where
  "tg_setStudentPresence studentId isPresent s =
     s\<lparr>attendanceByDate := (attendanceByDate s)
          (tg_selectedDate s \<mapsto>
             (case attendanceByDate s (tg_selectedDate s) of Some m \<Rightarrow> m | None \<Rightarrow> Map.empty)
               (studentId \<mapsto> isPresent))\<rparr>"

definition tg_saveOnClick ::
  "(string \<Rightarrow> jsnum) \<Rightarrow> 'a teacher_group_page_scheme \<Rightarrow> 'a teacher_group_page_scheme" where
  "tg_saveOnClick num s =
     (case tg_students s of
        None \<Rightarrow> s
      | Some sts \<Rightarrow>
          if length sts = 0 then s
          else s\<lparr>posts := posts s @
                    [SaveAttendance (num (tg_groupId s)) (tg_selectedDate s)
                       (payloadAttendance (attendanceForDate s) sts)],
                 tg_savePending := True\<rparr>)"

text \<open>
  The save button of the tab is disabled while a save is pending. The page renders the
  tab only for a finite group id of a group it has found, with the button under a
  non-empty student list; \<open>tg_clickSave\<close> allows the click in the other states too.
\<close>

definition tg_clickSave ::
  "(string \<Rightarrow> jsnum) \<Rightarrow> 'a teacher_group_page_scheme \<Rightarrow> 'a teacher_group_page_scheme" where
  "tg_clickSave num s = (if tg_savePending s then s else tg_saveOnClick num s)"

definition tg_saveAttendanceMutation_settle ::
  "string outcome \<Rightarrow> 'a teacher_group_page_scheme \<Rightarrow> 'a teacher_group_page_scheme" where
  "tg_saveAttendanceMutation_settle r s =
     (if \<not> tg_savePending s then s
      else case r of
        Resolved message \<Rightarrow>
          s\<lparr>tg_savePending := False,
            toasts := toasts s @
              [\<lparr>destructive = False, title = ''common.success'',
                description =
                  (if message \<noteq> [] then message else ''teacher.attendance.saveSuccess'')\<rparr>]\<rparr>
      | Rejected _ \<Rightarrow>
          s\<lparr>tg_savePending := False,
            toasts := toasts s @
              [\<lparr>destructive = True, title = ''common.error'',
                description = ''teacher.attendance.saveError''\<rparr>]\<rparr>)"

definition tg_markAll ::
  "(int \<times> bool) list \<Rightarrow> 'a teacher_group_page_scheme \<Rightarrow> 'a teacher_group_page_scheme" where
  "tg_markAll clicks g = foldl (\<lambda>g' c. tg_setStudentPresence (fst c) (snd c) g') g clicks"

definition tg_same_frame ::
  "'a teacher_group_page_scheme \<Rightarrow> 'a teacher_group_page_scheme \<Rightarrow> bool" where
  "tg_same_frame g' g =
     (posts g' = posts g \<and> tg_students g' = tg_students g \<and> tg_savePending g' = tg_savePending g \<and>
      tg_groupId g' = tg_groupId g \<and> tg_selectedDate g' = tg_selectedDate g)"

section \<open>Concrete scenarios\<close>

text \<open>Students with the ids \<open>a, ..., b - 1\<close>, as the new-students query would list them.\<close>

definition students_upto :: "nat \<Rightarrow> nat \<Rightarrow> new_student list" where
  "students_upto a b =
     map (\<lambda>i. \<lparr>student_id = int i, full_name = ''Student'', phone = ''998901234567''\<rparr>) [a..<b]"

text \<open>The add-students dialog of group 7 with the 50 students 2 to 51 selected.\<close>

definition scenario_dialog :: add_students_dialog where
  "scenario_dialog = (add_students_initial ''7'')\<lparr>selectedStudents := map int [2..<52]\<rparr>"

text \<open>The detail page of group 7.\<close>

definition scenario_detail :: group_detail_page where
  "scenario_detail = group_detail_initial ''7''"

text \<open>The groups dialog filled in with the same teacher, id 3, in both roles; and the
  edit form of the detail page holding the same input, loaded from a group that had
  no assistant.\<close>

definition same_teacher_form :: group_form where
  "same_teacher_form =
     \<lparr>name = ''Evening'', level = ''A1'', main_teacher_id = ''3'', assistant_teacher_id = ''3''\<rparr>"

definition scenario_groups :: groups_page where
  "scenario_groups = (openCreateDialog groups_page_initial)\<lparr>groupForm := same_teacher_form\<rparr>"

definition scenario_edit :: group_detail_page where
  "scenario_edit =
     (group_detail_initial ''7'')
       \<lparr>isEditOpen := True,
        initialEditGroup := Some (same_teacher_form\<lparr>assistant_teacher_id := []\<rparr>),
        editGroup := same_teacher_form\<rparr>"

text \<open>The attendance sheet of group 7 on 2024-05-01: five students, initialised, then
  students 4 and 5 marked absent. And a sheet that holds a mark for student 1 only.\<close>

definition five_students :: "group_student list" where
  "five_students = map (\<lambda>i. \<lparr>gs_id = i, gs_full_name = ''Student''\<rparr>) [1, 2, 3, 4, 5]"

definition attendance_loaded :: attendance_page where
  "attendance_loaded =
     \<lparr>posts = [], invalidated = [], toasts = [],
      selectedDate = ''2024-05-01'', att_selectedGroupId = ''7'',
      attendanceByKey = Map.empty, students = Some five_students,
      studentsLoading = False, savePending = False\<rparr>"

definition scenario_attendance :: attendance_page where
  "scenario_attendance =
     att_setStudentPresence 5 False (att_setStudentPresence 4 False (att_initEffect attendance_loaded))"

definition scenario_unmarked :: attendance_page where
  "scenario_unmarked =
     attendance_loaded\<lparr>attendanceByKey := [''7:2024-05-01'' \<mapsto> [1 \<mapsto> False]]\<rparr>"

definition teacher_group_loaded :: teacher_group_page where
  "teacher_group_loaded =
     \<lparr>posts = [], invalidated = [], toasts = [],
      tg_groupId = ''7'', tg_selectedDate = ''2024-05-01'', attendanceByDate = Map.empty,
      tg_students = Some five_students, tg_savePending = False\<rparr>"

text \<open>The invariant of the add-students dialog: the selection holds no id twice and
  every call sent so far was well formed.\<close>

definition dialog_inv :: "add_students_dialog \<Rightarrow> bool" where
  "dialog_inv s = (distinct (selectedStudents s) \<and> list_all well_formed_batch (posts s))"

section \<open>Activation: validation gate, success and failure\<close>

lemma isActivateValid_iff:
  "isActivateValid s \<longleftrightarrow>
     (\<exists>st. selectedStudent s = Some st \<and> student_id st > 0) \<and>
     selectedGroupId s \<noteq> [] \<and> selectedLevel s \<noteq> []"
  by (auto simp: isActivateValid_def activateValidation_def activateSchema_def
      Suc_le_eq split: option.splits)

lemma valid_has_student: "isActivateValid s \<Longrightarrow> selectedStudent s \<noteq> None"
  by (auto simp: isActivateValid_iff)

lemma clickActivate_valid:
  assumes "isActivateValid s" "\<not> isActivating s" "selectedStudent s = Some st"
  shows "clickActivate num s =
     s\<lparr>posts := posts s @
          [ActivateStudent (student_id st) (num (selectedGroupId s)) (selectedLevel s)],
       isActivating := True\<rparr>"
  using assms
  by (simp add: clickActivate_def isActivateDisabled_def handleActivate_def
      activateMutation_mutate_def)

lemma clickActivate_blocked:
  "\<not> (isActivateValid s \<and> \<not> isActivating s) \<Longrightarrow> clickActivate num s = s"
  by (auto simp: clickActivate_def isActivateDisabled_def)

lemma Number_digits_7: "Number_digits ''7'' = Finite 7"
  by (simp add: Number_digits_def is_digit_def digit_value_def)

lemma scenario_activate_valid: "isActivateValid scenario_activate"
  by (simp add: isActivateValid_iff scenario_activate_def)

text \<open>
  C1. A click on the submit button of the activation dialog issues the activation call
  if and only if the selected student's id is positive, the selected group id is not
  empty, the derived level is not empty and no activation is in flight; otherwise the
  list of network calls is unchanged.
\<close>

theorem activation_submit_gate:
  "posts (clickActivate num s) \<noteq> posts s \<longleftrightarrow>
     ((case selectedStudent s of None \<Rightarrow> 0 | Some st \<Rightarrow> student_id st) > 0 \<and>
      selectedGroupId s \<noteq> [] \<and> selectedLevel s \<noteq> [] \<and> \<not> isActivating s)"
proof (cases "isActivateValid s \<and> \<not> isActivating s")
  case True
  then obtain st where st: "selectedStudent s = Some st" "student_id st > 0"
    by (auto simp: isActivateValid_iff)
  with True show ?thesis
    using clickActivate_valid [of s st num]
    by (auto simp: isActivateValid_iff)
next
  case False
  then have "clickActivate num s = s"
    by (rule clickActivate_blocked)
  with False show ?thesis
    by (auto simp: isActivateValid_iff split: option.splits)
qed

theorem activation_submit_gate_witness:
  "posts (clickActivate Number_digits scenario_activate) \<noteq> posts scenario_activate \<and>
   posts (clickActivate Number_digits (scenario_activate\<lparr>selectedGroupId := []\<rparr>)) =
     posts (scenario_activate\<lparr>selectedGroupId := []\<rparr>) \<and>
   posts (clickActivate Number_digits (scenario_activate\<lparr>isActivating := True\<rparr>)) =
     posts (scenario_activate\<lparr>isActivating := True\<rparr>)"
  using activation_submit_gate [of Number_digits scenario_activate]
    activation_submit_gate [of Number_digits "scenario_activate\<lparr>selectedGroupId := []\<rparr>"]
    activation_submit_gate [of Number_digits "scenario_activate\<lparr>isActivating := True\<rparr>"]
  by (simp add: scenario_activate_def)

text \<open>
  C2. When a valid activation is submitted and the call succeeds, exactly one
  activation call with the student's id, the group id and the level has been made, the
  keys newStudents, adminStudents and adminGroups (and no other) have been
  invalidated, the group and level selections are cleared and the dialog is closed.
\<close>

theorem activation_success_effects:
  assumes "isActivateValid s" and "\<not> isActivating s" and "selectedStudent s = Some st"
  shows "activateMutation_settle (Resolved ()) (clickActivate num s) =
     s\<lparr>posts := posts s @
          [ActivateStudent (student_id st) (num (selectedGroupId s)) (selectedLevel s)],
       invalidated := invalidated s @ [[''newStudents''], [''adminStudents''], [''adminGroups'']],
       toasts := toasts s @
         [\<lparr>destructive = False, title = ''admin.newStudents.activateSuccess'',
           description = ''admin.newStudents.activateSuccessDesc''\<rparr>],
       selectedStudent := None, selectedGroupId := [], selectedLevel := [],
       isActivateOpen := False\<rparr>"
  using assms
  by (simp add: clickActivate_valid [OF assms] activateMutation_settle_def
      activateMutation_onSuccess_def)

theorem activation_success_effects_witness:
  "posts (activateMutation_settle (Resolved ()) (clickActivate Number_digits scenario_activate)) =
     [ActivateStudent 42 (Finite 7) ''B1''] \<and>
   invalidated (activateMutation_settle (Resolved ()) (clickActivate Number_digits scenario_activate)) =
     [[''newStudents''], [''adminStudents''], [''adminGroups'']] \<and>
   \<not> isActivateOpen
     (activateMutation_settle (Resolved ()) (clickActivate Number_digits scenario_activate))"
proof -
  have st: "selectedStudent scenario_activate =
      Some \<lparr>student_id = 42, full_name = ''Ali'', phone = ''998901234567''\<rparr>"
    and idle: "\<not> isActivating scenario_activate"
    by (simp_all add: scenario_activate_def)
  show ?thesis
    using activation_success_effects [OF scenario_activate_valid idle st, of Number_digits]
    by (simp add: scenario_activate_def Number_digits_7)
qed

text \<open>
  C3. When a submitted activation fails, the page is as it was before the submission
  (dialog, selected student, group, level, invalidations, nothing in flight) except for
  the call that was made and one destructive notification.
\<close>

theorem activation_failure_keeps_state:
  assumes "isActivateValid s" and "\<not> isActivating s" and "selectedStudent s = Some st"
  shows "activateMutation_settle (Rejected err) (clickActivate num s) =
     s\<lparr>posts := posts s @
          [ActivateStudent (student_id st) (num (selectedGroupId s)) (selectedLevel s)],
       toasts := toasts s @
         [\<lparr>destructive = True, title = ''common.error'',
           description = ''admin.newStudents.activateError''\<rparr>]\<rparr>"
  using assms
  by (simp add: clickActivate_valid [OF assms] activateMutation_settle_def
      activateMutation_onError_def)

theorem activation_failure_keeps_state_witness:
  "isActivateOpen
     (activateMutation_settle (Rejected \<lparr>response_message = [], response_error = [],
        error_message = ''Network Error''\<rparr>) (clickActivate Number_digits scenario_activate)) \<and>
   selectedGroupId
     (activateMutation_settle (Rejected \<lparr>response_message = [], response_error = [],
        error_message = ''Network Error''\<rparr>) (clickActivate Number_digits scenario_activate)) = ''7'' \<and>
   selectedLevel
     (activateMutation_settle (Rejected \<lparr>response_message = [], response_error = [],
        error_message = ''Network Error''\<rparr>) (clickActivate Number_digits scenario_activate)) = ''B1'' \<and>
   invalidated
     (activateMutation_settle (Rejected \<lparr>response_message = [], response_error = [],
        error_message = ''Network Error''\<rparr>) (clickActivate Number_digits scenario_activate)) = []"
proof -
  have st: "selectedStudent scenario_activate =
      Some \<lparr>student_id = 42, full_name = ''Ali'', phone = ''998901234567''\<rparr>"
    and idle: "\<not> isActivating scenario_activate"
    by (simp_all add: scenario_activate_def)
  show ?thesis
    using activation_failure_keeps_state [OF scenario_activate_valid idle st,
        of "\<lparr>response_message = [], response_error = [], error_message = ''Network Error''\<rparr>"
          Number_digits]
    by (simp add: scenario_activate_def)
qed

section \<open>Phone numbers in the student and teacher forms\<close>









section \<open>Assistant teacher equal to the main teacher\<close>

lemma validateEditGroup_same_teacher:
  assumes "assistant_teacher_id g \<noteq> []" and "assistant_teacher_id g = main_teacher_id g"
  shows "(''assistant_teacher_id'', ''admin.groups.detail.assistantDifferent'')
           \<in> set (validateEditGroup g)"
  using assms by (simp add: validateEditGroup_def Let_def)

lemma edit_form_blocks_same_teacher:
  assumes "assistant_teacher_id (editGroup s) \<noteq> []"
    and "assistant_teacher_id (editGroup s) = main_teacher_id (editGroup s)"
  shows "posts (handleUpdateGroup num s) = posts s \<and> posts (submitEditForm num s) = posts s"
proof -
  have "validateEditGroup (editGroup s) \<noteq> []"
    using validateEditGroup_same_teacher [OF assms] by auto
  then show ?thesis
    by (simp add: handleUpdateGroup_def submitEditForm_def isEditValid_def Let_def)
qed

lemma edit_form_rejects_scenario:
  "validateEditGroup (editGroup scenario_edit) =
     [(''assistant_teacher_id'', ''admin.groups.detail.assistantDifferent'')] \<and>
   posts (handleUpdateGroup num scenario_edit) = []"
  by (simp add: scenario_edit_def same_teacher_form_def group_detail_initial_def
      validateEditGroup_def handleUpdateGroup_def Let_def trim_def is_js_space_def)

text \<open>
  C5 at the failing input. In the dialog of the groups list, with the teacher id 3
  chosen as main teacher and as assistant, the schema reports no issue, the submit
  button is enabled and the click sends the create call with both ids.
\<close>

theorem groups_dialog_accepts_same_teacher:
  "groupSchema (groupForm scenario_groups) = [] \<and>
   \<not> isSubmitDisabled scenario_groups \<and>
   posts (clickSubmit num scenario_groups) =
     [CreateGroup ''Evening'' ''A1'' (num ''3'') (Some (num ''3''))]"
  by (simp add: scenario_groups_def same_teacher_form_def openCreateDialog_def
      groups_page_initial_def groupSchema_def isSubmitDisabled_def isFormValid_def
      clickSubmit_def handleSubmit_def createGroupMutation_mutate_def assistant_payload_def
      trim_def is_js_space_def)

theorem groups_dialog_accepts_same_teacher_witness:
  "posts (clickSubmit Number_digits scenario_groups) =
     [CreateGroup ''Evening'' ''A1'' (Finite 3) (Some (Finite 3))]"
  using groups_dialog_accepts_same_teacher [of Number_digits]
  by (simp add: Number_digits_def is_digit_def digit_value_def)

section \<open>The assistant-teacher selection ``none''\<close>




section \<open>Removing a student from a group\<close>

lemma partialMatchKey_pair: "partialMatchKey [a, b] k \<longleftrightarrow> take 2 k = [a, b]"
  by (cases k; simp; cases "tl k"; auto simp: take_Suc_conv_app_nth numeral_2_eq_2)

text \<open>
  C7. Without the operator's confirmation the removal handler changes nothing, so no
  call is made. With it, exactly one removal call is made; when it succeeds, the only
  invalidation is that of the key adminGroupDetail of this group, which reaches the
  cached queries whose key starts with it and so not the groups list.
\<close>

theorem remove_student_confirmed_and_scoped:
  "handleRemoveStudent num False sid s = s \<and>
   posts (handleRemoveStudent num True sid s) = posts s @ [RemoveStudent (num (groupId s)) sid] \<and>
   posts (removeStudentMutation_settle (Resolved ()) (handleRemoveStudent num True sid s)) =
     posts s @ [RemoveStudent (num (groupId s)) sid] \<and>
   invalidated (removeStudentMutation_settle (Resolved ()) (handleRemoveStudent num True sid s)) =
     invalidated s @ [[''adminGroupDetail'', groupId s]] \<and>
   \<not> marks_stale [[''adminGroupDetail'', groupId s]] [''adminGroups''] \<and>
   (marks_stale [[''adminGroupDetail'', groupId s]] k \<longleftrightarrow>
      take 2 k = [''adminGroupDetail'', groupId s])"
  by (simp add: handleRemoveStudent_def removeStudentMutation_mutate_def
      removeStudentMutation_settle_def removeStudentMutation_onSuccess_def marks_stale_def
      partialMatchKey_pair)

theorem remove_student_confirmed_and_scoped_witness:
  "posts (handleRemoveStudent Number_digits False 9 scenario_detail) = [] \<and>
   posts (removeStudentMutation_settle (Resolved ())
            (handleRemoveStudent Number_digits True 9 scenario_detail)) =
     [RemoveStudent (Finite 7) 9] \<and>
   invalidated (removeStudentMutation_settle (Resolved ())
            (handleRemoveStudent Number_digits True 9 scenario_detail)) =
     [[''adminGroupDetail'', ''7'']] \<and>
   \<not> marks_stale [[''adminGroupDetail'', ''7'']] [''adminGroups'']"
  using remove_student_confirmed_and_scoped [of Number_digits 9 scenario_detail "[''adminGroups'']"]
  by (simp add: scenario_detail_def group_detail_initial_def Number_digits_7)

section \<open>Saving attendance\<close>

lemma all_present_foldl:
  "foldl (\<lambda>initial st. initial(gs_id st \<mapsto> True)) m sts i =
     (if i \<in> gs_id ` set sts then Some True else m i)"
  by (induction sts arbitrary: m) auto

lemma all_present_apply:
  "all_present sts i = (if i \<in> gs_id ` set sts then Some True else None)"
  by (simp add: all_present_def all_present_foldl)

lemma payload_ids: "map fst (payloadAttendance m sts) = map gs_id sts"
  by (simp add: payloadAttendance_def comp_def)

lemma payload_marks:
  "map snd (payloadAttendance m sts) = map (\<lambda>st. m (gs_id st) \<noteq> Some False) sts"
  by (auto simp: payloadAttendance_def split: option.splits)

lemma att_clickSave_posts:
  "posts (att_clickSave num s) =
     (case students s of
        None \<Rightarrow> posts s
      | Some sts \<Rightarrow>
          if sts \<noteq> [] \<and> \<not> savePending s \<and> \<not> studentsLoading s \<and>
             js_truthy (num (att_selectedGroupId s)) \<and> att_selectedGroupId s \<noteq> []
          then posts s @ [SaveAttendance (num (att_selectedGroupId s)) (selectedDate s)
                 (payloadAttendance (attendanceForSelection s) sts)]
          else posts s)"
  by (auto simp: att_clickSave_def att_saveOnClick_def att_key_def
      att_saveAttendanceMutation_mutate_def split: option.splits)

lemma tg_clickSave_posts:
  "posts (tg_clickSave num g) =
     (case tg_students g of
        None \<Rightarrow> posts g
      | Some sts \<Rightarrow>
          if sts \<noteq> [] \<and> \<not> tg_savePending g
          then posts g @ [SaveAttendance (num (tg_groupId g)) (tg_selectedDate g)
                 (payloadAttendance (attendanceForDate g) sts)]
          else posts g)"
  by (auto simp: tg_clickSave_def tg_saveOnClick_def split: option.splits)

lemma att_settle_effects:
  "invalidated (att_saveAttendanceMutation_settle r s) = invalidated s \<and>
   posts (att_saveAttendanceMutation_settle r s) = posts s"
  by (simp add: att_saveAttendanceMutation_settle_def split: outcome.splits)

lemma tg_settle_effects:
  "invalidated (tg_saveAttendanceMutation_settle r g) = invalidated g \<and>
   posts (tg_saveAttendanceMutation_settle r g) = posts g"
  by (simp add: tg_saveAttendanceMutation_settle_def split: outcome.splits)

lemma att_key_marks_update: "att_key (s\<lparr>attendanceByKey := m\<rparr>) = att_key s"
  by (simp add: att_key_def)

lemma att_init_marks:
  assumes "att_key s \<noteq> []" and "students s = Some sts" and "sts \<noteq> []"
    and "attendanceByKey s (att_key s) = None"
  shows "attendanceForSelection (att_initEffect s) = all_present sts"
  using assms by (simp add: att_initEffect_def attendanceForSelection_def att_key_marks_update)

lemma tg_init_marks:
  assumes "tg_students g = Some sts" and "sts \<noteq> []"
    and "attendanceByDate g (tg_selectedDate g) = None"
  shows "attendanceForDate (tg_initEffect g) = all_present sts"
  using assms by (simp add: tg_initEffect_def attendanceForDate_def)

lemma scenario_attendance_key: "att_key attendance_loaded = ''7:2024-05-01''"
  by (simp add: att_key_def attendance_loaded_def)

lemma Number_digits_truthy: "js_truthy (Number_digits ''7'')"
  by (simp add: Number_digits_7)

text \<open>
  C8. A click on the save button of the attendance page, and of the attendance tab of
  the teacher's group page, either makes no call or makes exactly one, whose entries
  are one per student of the loaded list, in its order, each with the mark of that
  student (present unless marked absent); settling the call makes no further call and
  invalidates nothing.
\<close>

theorem attendance_save_single_complete_call:
  "posts (att_clickSave num s) =
     (case students s of
        None \<Rightarrow> posts s
      | Some sts \<Rightarrow>
          if sts \<noteq> [] \<and> \<not> savePending s \<and> \<not> studentsLoading s \<and>
             js_truthy (num (att_selectedGroupId s)) \<and> att_selectedGroupId s \<noteq> []
          then posts s @ [SaveAttendance (num (att_selectedGroupId s)) (selectedDate s)
                 (payloadAttendance (attendanceForSelection s) sts)]
          else posts s) \<and>
   posts (tg_clickSave num g) =
     (case tg_students g of
        None \<Rightarrow> posts g
      | Some sts \<Rightarrow>
          if sts \<noteq> [] \<and> \<not> tg_savePending g
          then posts g @ [SaveAttendance (num (tg_groupId g)) (tg_selectedDate g)
                 (payloadAttendance (attendanceForDate g) sts)]
          else posts g) \<and>
   map fst (payloadAttendance m sts) = map gs_id sts \<and>
   map snd (payloadAttendance m sts) = map (\<lambda>st. m (gs_id st) \<noteq> Some False) sts \<and>
   invalidated (att_saveAttendanceMutation_settle r (att_clickSave num s)) = invalidated s \<and>
   posts (att_saveAttendanceMutation_settle r (att_clickSave num s)) = posts (att_clickSave num s) \<and>
   invalidated (tg_saveAttendanceMutation_settle r (tg_clickSave num g)) = invalidated g \<and>
   posts (tg_saveAttendanceMutation_settle r (tg_clickSave num g)) = posts (tg_clickSave num g)"
proof -
  have "invalidated (att_clickSave num s) = invalidated s"
    by (auto simp: att_clickSave_def att_saveOnClick_def att_saveAttendanceMutation_mutate_def
        split: option.splits)
  moreover have "invalidated (tg_clickSave num g) = invalidated g"
    by (auto simp: tg_clickSave_def tg_saveOnClick_def split: option.splits)
  ultimately show ?thesis
    by (simp add: att_clickSave_posts tg_clickSave_posts payload_ids payload_marks
        att_settle_effects tg_settle_effects)
qed

lemma scenario_marks:
  "attendanceForSelection scenario_attendance =
     [1 \<mapsto> True, 2 \<mapsto> True, 3 \<mapsto> True, 4 \<mapsto> False, 5 \<mapsto> False]"
  by (simp add: scenario_attendance_def attendance_loaded_def att_initEffect_def
      att_setStudentPresence_def attendanceForSelection_def att_key_def all_present_def
      five_students_def)

lemma scenario_fields:
  "students scenario_attendance = Some five_students \<and> \<not> savePending scenario_attendance \<and>
   \<not> studentsLoading scenario_attendance \<and> att_selectedGroupId scenario_attendance = ''7'' \<and>
   selectedDate scenario_attendance = ''2024-05-01'' \<and> posts scenario_attendance = [] \<and>
   invalidated scenario_attendance = []"
  by (simp add: scenario_attendance_def attendance_loaded_def att_initEffect_def
      att_setStudentPresence_def att_key_def five_students_def)

theorem attendance_save_single_complete_call_witness:
  "posts (att_clickSave Number_digits scenario_attendance) =
     [SaveAttendance (Finite 7) ''2024-05-01''
        [(1, True), (2, True), (3, True), (4, False), (5, False)]] \<and>
   invalidated (att_saveAttendanceMutation_settle (Resolved ''Saved'')
      (att_clickSave Number_digits scenario_attendance)) = []"
  using attendance_save_single_complete_call
    [of Number_digits scenario_attendance teacher_group_loaded Map.empty "[]" "Resolved ''Saved''"]
  by (simp add: scenario_fields scenario_marks Number_digits_7 five_students_def
      payloadAttendance_def)

lemma payload_present:
  assumes "st \<in> set sts" and "m (gs_id st) \<noteq> Some False"
  shows "(gs_id st, True) \<in> set (payloadAttendance m sts) \<and>
         (gs_id st, False) \<notin> set (payloadAttendance m sts)"
  using assms by (force simp: payloadAttendance_def split: option.splits)

lemma att_initEffect_frame: "att_same_frame (att_initEffect s) s"
  by (simp add: att_same_frame_def att_initEffect_def split: option.splits)

lemma att_setStudentPresence_frame: "att_same_frame (att_setStudentPresence i b s) s"
  by (simp add: att_same_frame_def att_setStudentPresence_def)

lemma att_same_frame_trans: "att_same_frame a b \<Longrightarrow> att_same_frame b c \<Longrightarrow> att_same_frame a c"
  by (simp add: att_same_frame_def)

lemma att_markAll_frame: "att_same_frame (att_markAll clicks s) s"
proof (induction clicks arbitrary: s)
  case Nil
  then show ?case by (simp add: att_markAll_def att_same_frame_def)
next
  case (Cons c clicks)
  have "att_same_frame (att_markAll clicks (att_setStudentPresence (fst c) (snd c) s))
          (att_setStudentPresence (fst c) (snd c) s)"
    by (rule Cons.IH)
  then show ?case
    using att_setStudentPresence_frame [of "fst c" "snd c" s]
    by (simp add: att_markAll_def att_same_frame_def)
qed

lemma att_setStudentPresence_other:
  "i \<noteq> j \<Longrightarrow>
   attendanceForSelection (att_setStudentPresence j b s) i = attendanceForSelection s i"
  by (simp add: att_setStudentPresence_def attendanceForSelection_def att_key_marks_update
      split: option.splits)

lemma att_markAll_other:
  "i \<notin> fst ` set clicks \<Longrightarrow>
   attendanceForSelection (att_markAll clicks s) i = attendanceForSelection s i"
proof (induction clicks arbitrary: s)
  case Nil
  then show ?case by (simp add: att_markAll_def)
next
  case (Cons c clicks)
  then have "attendanceForSelection (att_markAll clicks (att_setStudentPresence (fst c) (snd c) s)) i =
      attendanceForSelection (att_setStudentPresence (fst c) (snd c) s) i"
    by simp
  with Cons.prems show ?case
    by (simp add: att_markAll_def att_setStudentPresence_other)
qed

lemma att_initEffect_not_absent:
  assumes "students s = Some sts" and "st \<in> set sts"
    and "attendanceForSelection s (gs_id st) \<noteq> Some False"
  shows "attendanceForSelection (att_initEffect s) (gs_id st) \<noteq> Some False"
proof (cases "att_key s \<noteq> [] \<and> attendanceByKey s (att_key s) = None")
  case True
  have "sts \<noteq> []" using assms(2) by auto
  with True assms(1) have "attendanceForSelection (att_initEffect s) = all_present sts"
    by (simp add: att_init_marks)
  with assms(2) show ?thesis by (simp add: all_present_apply)
next
  case False
  then have "att_initEffect s = s"
    by (auto simp: att_initEffect_def split: option.splits)
  with assms(3) show ?thesis by simp
qed

lemma tg_initEffect_frame: "tg_same_frame (tg_initEffect g) g"
  by (simp add: tg_same_frame_def tg_initEffect_def split: option.splits)

lemma tg_setStudentPresence_frame: "tg_same_frame (tg_setStudentPresence i b g) g"
  by (simp add: tg_same_frame_def tg_setStudentPresence_def)

lemma tg_markAll_frame: "tg_same_frame (tg_markAll clicks g) g"
proof (induction clicks arbitrary: g)
  case Nil
  then show ?case by (simp add: tg_markAll_def tg_same_frame_def)
next
  case (Cons c clicks)
  have "tg_same_frame (tg_markAll clicks (tg_setStudentPresence (fst c) (snd c) g))
          (tg_setStudentPresence (fst c) (snd c) g)"
    by (rule Cons.IH)
  then show ?case
    using tg_setStudentPresence_frame [of "fst c" "snd c" g]
    by (simp add: tg_markAll_def tg_same_frame_def)
qed

lemma tg_setStudentPresence_other:
  "i \<noteq> j \<Longrightarrow> attendanceForDate (tg_setStudentPresence j b g) i = attendanceForDate g i"
  by (simp add: tg_setStudentPresence_def attendanceForDate_def split: option.splits)

lemma tg_markAll_other:
  "i \<notin> fst ` set clicks \<Longrightarrow> attendanceForDate (tg_markAll clicks g) i = attendanceForDate g i"
proof (induction clicks arbitrary: g)
  case Nil
  then show ?case by (simp add: tg_markAll_def)
next
  case (Cons c clicks)
  then have "attendanceForDate (tg_markAll clicks (tg_setStudentPresence (fst c) (snd c) g)) i =
      attendanceForDate (tg_setStudentPresence (fst c) (snd c) g) i"
    by simp
  with Cons.prems show ?case
    by (simp add: tg_markAll_def tg_setStudentPresence_other)
qed

lemma tg_initEffect_not_absent:
  assumes "tg_students g = Some sts" and "st \<in> set sts"
    and "attendanceForDate g (gs_id st) \<noteq> Some False"
  shows "attendanceForDate (tg_initEffect g) (gs_id st) \<noteq> Some False"
proof (cases "attendanceByDate g (tg_selectedDate g) = None")
  case True
  have "sts \<noteq> []" using assms(2) by auto
  with True assms(1) have "attendanceForDate (tg_initEffect g) = all_present sts"
    by (simp add: tg_init_marks)
  with assms(2) show ?thesis by (simp add: all_present_apply)
next
  case False
  then have "tg_initEffect g = g"
    by (auto simp: tg_initEffect_def split: option.splits)
  with assms(3) show ?thesis by simp
qed

lemma marked_sheet:
  "attendanceForSelection (att_markAll [(4, False), (5, False)] (att_initEffect attendance_loaded)) =
     [1 \<mapsto> True, 2 \<mapsto> True, 3 \<mapsto> True, 4 \<mapsto> False, 5 \<mapsto> False]"
  by (simp add: att_markAll_def attendance_loaded_def att_initEffect_def
      att_setStudentPresence_def attendanceForSelection_def att_key_def all_present_def
      five_students_def)

lemma marked_tab:
  "attendanceForDate (tg_markAll [(5, False)] (tg_initEffect teacher_group_loaded)) =
     [1 \<mapsto> True, 2 \<mapsto> True, 3 \<mapsto> True, 4 \<mapsto> True, 5 \<mapsto> False]"
  by (simp add: tg_markAll_def teacher_group_loaded_def tg_initEffect_def
      tg_setStudentPresence_def attendanceForDate_def all_present_def five_students_def)

lemma unmarked_sheet:
  "attendanceForSelection (att_markAll [] (att_initEffect scenario_unmarked)) = [1 \<mapsto> False]"
  by (simp add: att_markAll_def scenario_unmarked_def attendance_loaded_def att_initEffect_def
      attendanceForSelection_def att_key_def five_students_def)

text \<open>
  C10. For a student of the loaded list: the initialisation of a sheet marks the
  student present, on both pages; a student whose mark in the sheet is missing or
  present is sent as present and not as absent; and when a page whose sheet does not
  mark the student absent is initialised, the teacher then clicks marks of other
  students only, and the save button is clicked while it is enabled, the one call made
  carries the student as present and not as absent, on both pages.
\<close>

theorem unmarked_students_are_present:
  assumes "st \<in> set sts" and "gs_id st \<notin> fst ` set clicks"
  shows "all_present sts (gs_id st) = Some True \<and>
    (att_key s \<noteq> [] \<and> students s = Some sts \<and> attendanceByKey s (att_key s) = None \<longrightarrow>
       attendanceForSelection (att_initEffect s) (gs_id st) = Some True) \<and>
    (tg_students g = Some sts \<and> attendanceByDate g (tg_selectedDate g) = None \<longrightarrow>
       attendanceForDate (tg_initEffect g) (gs_id st) = Some True) \<and>
    (m (gs_id st) \<noteq> Some False \<longrightarrow>
       (gs_id st, True) \<in> set (payloadAttendance m sts) \<and>
       (gs_id st, False) \<notin> set (payloadAttendance m sts)) \<and>
    (students s = Some sts \<and> attendanceForSelection s (gs_id st) \<noteq> Some False \<and>
     \<not> savePending s \<and> \<not> studentsLoading s \<and>
     js_truthy (num (att_selectedGroupId s)) \<and> att_selectedGroupId s \<noteq> [] \<longrightarrow>
       (let s' = att_markAll clicks (att_initEffect s);
            entries = payloadAttendance (attendanceForSelection s') sts
        in posts (att_clickSave num s') =
             posts s @ [SaveAttendance (num (att_selectedGroupId s)) (selectedDate s) entries] \<and>
           (gs_id st, True) \<in> set entries \<and> (gs_id st, False) \<notin> set entries)) \<and>
    (tg_students g = Some sts \<and> attendanceForDate g (gs_id st) \<noteq> Some False \<and>
     \<not> tg_savePending g \<longrightarrow>
       (let g' = tg_markAll clicks (tg_initEffect g);
            entries = payloadAttendance (attendanceForDate g') sts
        in posts (tg_clickSave num g') =
             posts g @ [SaveAttendance (num (tg_groupId g)) (tg_selectedDate g) entries] \<and>
           (gs_id st, True) \<in> set entries \<and> (gs_id st, False) \<notin> set entries))"
proof -
  have ne: "sts \<noteq> []" using assms(1) by auto
  have present: "all_present sts (gs_id st) = Some True"
    using assms(1) by (simp add: all_present_apply)
  have att: "attendanceForSelection (att_initEffect s) (gs_id st) = Some True"
    if "att_key s \<noteq> []" "students s = Some sts" "attendanceByKey s (att_key s) = None"
    using att_init_marks [OF that(1) that(2) ne that(3)] present by simp
  have tg: "attendanceForDate (tg_initEffect g) (gs_id st) = Some True"
    if "tg_students g = Some sts" "attendanceByDate g (tg_selectedDate g) = None"
    using tg_init_marks [OF that(1) ne that(2)] present by simp
  have att_save:
    "posts (att_clickSave num (att_markAll clicks (att_initEffect s))) =
       posts s @ [SaveAttendance (num (att_selectedGroupId s)) (selectedDate s)
         (payloadAttendance
            (attendanceForSelection (att_markAll clicks (att_initEffect s))) sts)] \<and>
     (gs_id st, True) \<in> set (payloadAttendance
        (attendanceForSelection (att_markAll clicks (att_initEffect s))) sts) \<and>
     (gs_id st, False) \<notin> set (payloadAttendance
        (attendanceForSelection (att_markAll clicks (att_initEffect s))) sts)"
    if "students s = Some sts" "attendanceForSelection s (gs_id st) \<noteq> Some False"
      "\<not> savePending s" "\<not> studentsLoading s"
      "js_truthy (num (att_selectedGroupId s))" "att_selectedGroupId s \<noteq> []"
  proof -
    let ?s' = "att_markAll clicks (att_initEffect s)"
    have frame: "att_same_frame ?s' s"
      using att_markAll_frame [of clicks "att_initEffect s"] att_initEffect_frame [of s]
      by (rule att_same_frame_trans)
    have "attendanceForSelection ?s' (gs_id st) =
        attendanceForSelection (att_initEffect s) (gs_id st)"
      using assms(2) by (rule att_markAll_other)
    then have mark: "attendanceForSelection ?s' (gs_id st) \<noteq> Some False"
      using att_initEffect_not_absent [OF that(1) assms(1) that(2)] by simp
    have "posts (att_clickSave num ?s') =
        posts s @ [SaveAttendance (num (att_selectedGroupId s)) (selectedDate s)
          (payloadAttendance (attendanceForSelection ?s') sts)]"
      using frame that ne by (simp add: att_clickSave_posts att_same_frame_def)
    then show ?thesis
      using payload_present [of st sts "attendanceForSelection ?s'"] assms(1) mark by simp
  qed
  have tg_save:
    "posts (tg_clickSave num (tg_markAll clicks (tg_initEffect g))) =
       posts g @ [SaveAttendance (num (tg_groupId g)) (tg_selectedDate g)
         (payloadAttendance (attendanceForDate (tg_markAll clicks (tg_initEffect g))) sts)] \<and>
     (gs_id st, True) \<in> set (payloadAttendance
        (attendanceForDate (tg_markAll clicks (tg_initEffect g))) sts) \<and>
     (gs_id st, False) \<notin> set (payloadAttendance
        (attendanceForDate (tg_markAll clicks (tg_initEffect g))) sts)"
    if "tg_students g = Some sts" "attendanceForDate g (gs_id st) \<noteq> Some False"
      "\<not> tg_savePending g"
  proof -
    let ?g' = "tg_markAll clicks (tg_initEffect g)"
    have "tg_same_frame ?g' (tg_initEffect g)"
      by (rule tg_markAll_frame)
    then have frame: "tg_same_frame ?g' g"
      using tg_initEffect_frame [of g] by (simp add: tg_same_frame_def)
    have "attendanceForDate ?g' (gs_id st) = attendanceForDate (tg_initEffect g) (gs_id st)"
      using assms(2) by (rule tg_markAll_other)
    then have mark: "attendanceForDate ?g' (gs_id st) \<noteq> Some False"
      using tg_initEffect_not_absent [OF that(1) assms(1) that(2)] by simp
    have "posts (tg_clickSave num ?g') =
        posts g @ [SaveAttendance (num (tg_groupId g)) (tg_selectedDate g)
          (payloadAttendance (attendanceForDate ?g') sts)]"
      using frame that ne by (simp add: tg_clickSave_posts tg_same_frame_def)
    then show ?thesis
      using payload_present [of st sts "attendanceForDate ?g'"] assms(1) mark by simp
  qed
  have payload: "(gs_id st, True) \<in> set (payloadAttendance m sts) \<and>
      (gs_id st, False) \<notin> set (payloadAttendance m sts)" if "m (gs_id st) \<noteq> Some False"
    using payload_present [of st sts m] assms(1) that by simp
  show ?thesis
    unfolding Let_def using present att tg payload att_save tg_save by blast
qed

theorem unmarked_students_are_present_witness:
  "posts (att_clickSave Number_digits
      (att_markAll [(4, False), (5, False)] (att_initEffect attendance_loaded))) =
     [SaveAttendance (Finite 7) ''2024-05-01''
        [(1, True), (2, True), (3, True), (4, False), (5, False)]] \<and>
   posts (att_clickSave Number_digits (att_markAll [] (att_initEffect scenario_unmarked))) =
     [SaveAttendance (Finite 7) ''2024-05-01''
        [(1, False), (2, True), (3, True), (4, True), (5, True)]] \<and>
   posts (tg_clickSave Number_digits (tg_markAll [(5, False)] (tg_initEffect teacher_group_loaded))) =
     [SaveAttendance (Finite 7) ''2024-05-01''
        [(1, True), (2, True), (3, True), (4, True), (5, False)]] \<and>
   attendanceForSelection (att_initEffect attendance_loaded) 2 = Some True \<and>
   attendanceForDate (tg_initEffect teacher_group_loaded) 2 = Some True"
proof -
  note present = unmarked_students_are_present
  have mem: "\<lparr>gs_id = 2, gs_full_name = ''Student''\<rparr> \<in> set five_students"
    by (simp add: five_students_def)
  have untouched: "gs_id \<lparr>gs_id = 2, gs_full_name = ''Student''\<rparr> \<notin> fst ` set [(4, False), (5, False)]"
    and untouched_tab: "gs_id \<lparr>gs_id = 2, gs_full_name = ''Student''\<rparr> \<notin> fst ` set [(5, False)]"
    and no_click: "gs_id \<lparr>gs_id = 2, gs_full_name = ''Student''\<rparr> \<notin> fst ` set ([] :: (int \<times> bool) list)"
    by simp_all
  have loaded: "att_key attendance_loaded \<noteq> [] \<and> students attendance_loaded = Some five_students \<and>
      attendanceByKey attendance_loaded (att_key attendance_loaded) = None \<and>
      attendanceForSelection attendance_loaded 2 \<noteq> Some False \<and>
      \<not> savePending attendance_loaded \<and> \<not> studentsLoading attendance_loaded \<and>
      js_truthy (Number_digits (att_selectedGroupId attendance_loaded)) \<and>
      att_selectedGroupId attendance_loaded \<noteq> [] \<and>
      att_selectedGroupId attendance_loaded = ''7'' \<and>
      selectedDate attendance_loaded = ''2024-05-01'' \<and> posts attendance_loaded = []"
    by (simp add: att_key_def attendance_loaded_def attendanceForSelection_def Number_digits_7)
  have unmarked: "students scenario_unmarked = Some five_students \<and>
      attendanceForSelection scenario_unmarked 2 \<noteq> Some False \<and>
      \<not> savePending scenario_unmarked \<and> \<not> studentsLoading scenario_unmarked \<and>
      js_truthy (Number_digits (att_selectedGroupId scenario_unmarked)) \<and>
      att_selectedGroupId scenario_unmarked \<noteq> [] \<and>
      att_selectedGroupId scenario_unmarked = ''7'' \<and>
      selectedDate scenario_unmarked = ''2024-05-01'' \<and> posts scenario_unmarked = []"
    by (simp add: scenario_unmarked_def attendance_loaded_def attendanceForSelection_def
        att_key_def Number_digits_7)
  have tab: "tg_students teacher_group_loaded = Some five_students \<and>
      attendanceByDate teacher_group_loaded (tg_selectedDate teacher_group_loaded) = None \<and>
      attendanceForDate teacher_group_loaded 2 \<noteq> Some False \<and>
      \<not> tg_savePending teacher_group_loaded \<and> tg_groupId teacher_group_loaded = ''7'' \<and>
      tg_selectedDate teacher_group_loaded = ''2024-05-01'' \<and> posts teacher_group_loaded = []"
    by (simp add: teacher_group_loaded_def attendanceForDate_def)
  have a: "posts (att_clickSave Number_digits
      (att_markAll [(4, False), (5, False)] (att_initEffect attendance_loaded))) =
     [SaveAttendance (Finite 7) ''2024-05-01''
        [(1, True), (2, True), (3, True), (4, False), (5, False)]]"
    using present [OF mem untouched, of attendance_loaded teacher_group_loaded Map.empty
        Number_digits] loaded
    by (simp add: Let_def marked_sheet Number_digits_7 payloadAttendance_def five_students_def)
  have b: "posts (att_clickSave Number_digits (att_markAll [] (att_initEffect scenario_unmarked))) =
     [SaveAttendance (Finite 7) ''2024-05-01''
        [(1, False), (2, True), (3, True), (4, True), (5, True)]]"
    using present [OF mem no_click, of scenario_unmarked teacher_group_loaded Map.empty
        Number_digits] unmarked
    by (simp add: Let_def unmarked_sheet Number_digits_7 payloadAttendance_def five_students_def)
  have c: "posts (tg_clickSave Number_digits
      (tg_markAll [(5, False)] (tg_initEffect teacher_group_loaded))) =
     [SaveAttendance (Finite 7) ''2024-05-01''
        [(1, True), (2, True), (3, True), (4, True), (5, False)]]"
    using present [OF mem untouched_tab, of attendance_loaded teacher_group_loaded Map.empty
        Number_digits] tab
    by (simp add: Let_def marked_tab Number_digits_7 payloadAttendance_def five_students_def)
  have fresh: "att_key attendance_loaded \<noteq> [] \<and> students attendance_loaded = Some five_students \<and>
      attendanceByKey attendance_loaded (att_key attendance_loaded) = None"
    and fresh_tab: "tg_students teacher_group_loaded = Some five_students \<and>
      attendanceByDate teacher_group_loaded (tg_selectedDate teacher_group_loaded) = None"
    using loaded tab by blast+
  have d: "attendanceForSelection (att_initEffect attendance_loaded)
        (gs_id \<lparr>gs_id = 2, gs_full_name = ''Student''\<rparr>) = Some True \<and>
      attendanceForDate (tg_initEffect teacher_group_loaded)
        (gs_id \<lparr>gs_id = 2, gs_full_name = ''Student''\<rparr>) = Some True"
    using present [OF mem no_click, of attendance_loaded teacher_group_loaded Map.empty
        Number_digits] fresh fresh_tab
    by blast
  from a b c d show ?thesis by simp
qed


section \<open>Adding students to a group in batches\<close>

lemma set_Set_add_all: "set (Set_add_all acc xs) = set acc \<union> set xs"
  by (induction xs arbitrary: acc) auto

lemma distinct_Set_add_all: "distinct acc \<Longrightarrow> distinct (Set_add_all acc xs)"
  by (induction xs arbitrary: acc) auto

lemma Set_add_all_distinct_id: "distinct (acc @ xs) \<Longrightarrow> Set_add_all acc xs = acc @ xs"
  by (induction xs arbitrary: acc) auto

lemma Array_from_Set_props:
  "distinct (Array_from_Set xs) \<and> set (Array_from_Set xs) = set xs"
  by (simp add: Array_from_Set_def set_Set_add_all distinct_Set_add_all)

lemma Array_from_Set_distinct_id: "distinct xs \<Longrightarrow> Array_from_Set xs = xs"
  using Set_add_all_distinct_id [of "[]" xs] by (simp add: Array_from_Set_def)

lemma handleSelectAllFiltered_cases:
  "handleSelectAllFiltered filtered s =
     (if length (Array_from_Set (selectedStudents s @ map student_id filtered)) > 100
      then s\<lparr>selectionError := ''admin.groups.maxStudentsError''\<rparr>
      else s\<lparr>selectionError := [],
             selectedStudents := Array_from_Set (selectedStudents s @ map student_id filtered)\<rparr>)"
  by (simp add: handleSelectAllFiltered_def Let_def)

lemma handleAddStudents_rejects:
  assumes "length (Array_from_Set (selectedStudents s)) = 0 \<or>
           length (Array_from_Set (selectedStudents s)) > 100"
  shows "posts (handleAddStudents num s) = posts s \<and>
         selectedStudents (handleAddStudents num s) = selectedStudents s \<and>
         selectionError (handleAddStudents num s) \<noteq> []"
  using assms by (auto simp: handleAddStudents_def Let_def)

lemma dialog_inv_initial: "dialog_inv (add_students_initial gid)"
  by (simp add: dialog_inv_def add_students_initial_def)

lemma dialog_inv_step: "dialog_inv s \<Longrightarrow> dialog_inv (dialog_step num s e)"
proof (cases e)
  case (ToggleStudent i)
  assume "dialog_inv s"
  with ToggleStudent show ?thesis
    by (auto simp: dialog_inv_def handleToggleStudent_def)
next
  case (SelectAllFiltered fs)
  assume "dialog_inv s"
  with SelectAllFiltered show ?thesis
    by (simp add: dialog_inv_def handleSelectAllFiltered_cases Array_from_Set_props)
next
  case AddClicked
  assume "dialog_inv s"
  with AddClicked show ?thesis
    by (auto simp: dialog_inv_def handleAddStudents_def Let_def Array_from_Set_distinct_id
        addStudentsMutation_mutate_def Suc_le_eq)
next
  case (Settled r)
  assume "dialog_inv s"
  with Settled show ?thesis
    by (auto simp: dialog_inv_def addStudentsMutation_settle_def addStudentsMutation_onSuccess_def
        addStudentsMutation_onError_def handleClose_def split: outcome.splits)
qed (auto simp: dialog_inv_def handleClearSelection_def handleRequestClose_def handleClose_def)

lemma dialog_inv_foldl: "dialog_inv s \<Longrightarrow> dialog_inv (foldl (dialog_step num) s evs)"
  by (induction evs arbitrary: s) (auto simp: dialog_inv_step)

lemma dialog_run_inv: "dialog_inv (dialog_run num gid evs)"
  by (simp add: dialog_run_def dialog_inv_foldl dialog_inv_initial)

lemma union_100:
  "Array_from_Set (map int [2..<52] @ map student_id (students_upto 27 102)) = map int [2..<102]"
  by code_simp

lemma union_101:
  "length (Array_from_Set (map int [2..<52] @ map student_id (students_upto 27 103))) = 101"
  by code_simp

lemma unique_101: "length (Array_from_Set (map int [2..<103])) = 101"
  by code_simp

text \<open>
  C6. The add handler de-duplicates the selection and, when the result is empty or
  has more than 100 ids, makes no call and shows an error. Select-all leaves the page
  as it is but for the capacity error when the de-duplicated union of the selection
  and the filtered students has more than 100 ids, and otherwise (so at exactly 100)
  makes that union the selection with no error. De-duplication gives each id once.
  Whatever happens to the dialog, its selection never holds an id twice and every
  add-students call it made carries 1 to 100 ids, none twice.
\<close>

theorem batch_add_deduplicated_and_capped:
  "(length (Array_from_Set (selectedStudents s)) = 0 \<or>
    length (Array_from_Set (selectedStudents s)) > 100 \<longrightarrow>
      posts (handleAddStudents num s) = posts s \<and>
      selectionError (handleAddStudents num s) \<noteq> []) \<and>
   handleSelectAllFiltered filtered s =
     (if length (Array_from_Set (selectedStudents s @ map student_id filtered)) > 100
      then s\<lparr>selectionError := ''admin.groups.maxStudentsError''\<rparr>
      else s\<lparr>selectionError := [],
             selectedStudents := Array_from_Set (selectedStudents s @ map student_id filtered)\<rparr>) \<and>
   distinct (Array_from_Set xs) \<and> set (Array_from_Set xs) = set xs \<and>
   distinct (selectedStudents (dialog_run num gid evs)) \<and>
   list_all well_formed_batch (posts (dialog_run num gid evs))"
  using handleAddStudents_rejects [of s num] handleSelectAllFiltered_cases [of filtered s]
    Array_from_Set_props [of xs] dialog_run_inv [of num gid evs]
  by (simp add: dialog_inv_def)

theorem batch_add_deduplicated_and_capped_witness:
  "handleSelectAllFiltered (students_upto 27 102) scenario_dialog =
     scenario_dialog\<lparr>selectionError := [], selectedStudents := map int [2..<102]\<rparr> \<and>
   length (map int [2..<102]) = 100 \<and>
   handleSelectAllFiltered (students_upto 27 103) scenario_dialog =
     scenario_dialog\<lparr>selectionError := ''admin.groups.maxStudentsError''\<rparr> \<and>
   posts (handleAddStudents Number_digits
     (scenario_dialog\<lparr>selectedStudents := map int [2..<103]\<rparr>)) = [] \<and>
   selectionError (handleAddStudents Number_digits
     (scenario_dialog\<lparr>selectedStudents := []\<rparr>)) \<noteq> [] \<and>
   list_all well_formed_batch (posts (dialog_run Number_digits ''7''
     [ToggleStudent 4, ToggleStudent 9, ToggleStudent 4, SelectAllFiltered (students_upto 9 12),
      AddClicked]))"
proof -
  note capped = batch_add_deduplicated_and_capped
  have sel: "selectedStudents scenario_dialog = map int [2..<52]"
    and none: "posts scenario_dialog = []"
    by (simp_all del: upt_rec_numeral add: scenario_dialog_def add_students_initial_def)
  have "handleSelectAllFiltered (students_upto 27 102) scenario_dialog =
     (if length (Array_from_Set
           (selectedStudents scenario_dialog @ map student_id (students_upto 27 102))) > 100
      then scenario_dialog\<lparr>selectionError := ''admin.groups.maxStudentsError''\<rparr>
      else scenario_dialog\<lparr>selectionError := [],
             selectedStudents := Array_from_Set
               (selectedStudents scenario_dialog @ map student_id (students_upto 27 102))\<rparr>)"
    using capped [of scenario_dialog Number_digits "students_upto 27 102" "[] :: int list"
        "''7''" "[]"]
    by blast
  then have fits: "handleSelectAllFiltered (students_upto 27 102) scenario_dialog =
      scenario_dialog\<lparr>selectionError := [], selectedStudents := map int [2..<102]\<rparr>"
    unfolding sel union_100 by (simp del: upt_rec_numeral)
  have "handleSelectAllFiltered (students_upto 27 103) scenario_dialog =
     (if length (Array_from_Set
           (selectedStudents scenario_dialog @ map student_id (students_upto 27 103))) > 100
      then scenario_dialog\<lparr>selectionError := ''admin.groups.maxStudentsError''\<rparr>
      else scenario_dialog\<lparr>selectionError := [],
             selectedStudents := Array_from_Set
               (selectedStudents scenario_dialog @ map student_id (students_upto 27 103))\<rparr>)"
    using capped [of scenario_dialog Number_digits "students_upto 27 103" "[] :: int list"
        "''7''" "[]"]
    by blast
  then have over: "handleSelectAllFiltered (students_upto 27 103) scenario_dialog =
      scenario_dialog\<lparr>selectionError := ''admin.groups.maxStudentsError''\<rparr>"
    unfolding sel union_101 by simp
  have many: "length (Array_from_Set (selectedStudents
      (scenario_dialog\<lparr>selectedStudents := map int [2..<103]\<rparr>))) > 100"
    by (simp del: upt_rec_numeral add: unique_101)
  have too_many: "posts (handleAddStudents Number_digits
      (scenario_dialog\<lparr>selectedStudents := map int [2..<103]\<rparr>)) = []"
    using capped [of "scenario_dialog\<lparr>selectedStudents := map int [2..<103]\<rparr>" Number_digits
        "[]" "[] :: int list" "''7''" "[]"] many none
    by simp
  have zero: "length (Array_from_Set (selectedStudents
      (scenario_dialog\<lparr>selectedStudents := []\<rparr>))) = 0"
    by (simp add: Array_from_Set_def)
  have unselected: "selectionError (handleAddStudents Number_digits
      (scenario_dialog\<lparr>selectedStudents := []\<rparr>)) \<noteq> []"
    using capped [of "scenario_dialog\<lparr>selectedStudents := []\<rparr>" Number_digits
        "[]" "[] :: int list" "''7''" "[]"] zero
    by blast
  have run: "list_all well_formed_batch (posts (dialog_run Number_digits ''7''
       [ToggleStudent 4, ToggleStudent 9, ToggleStudent 4, SelectAllFiltered (students_upto 9 12),
        AddClicked]))"
    using capped [of scenario_dialog Number_digits "[]" "[] :: int list" "''7''"
        "[ToggleStudent 4, ToggleStudent 9, ToggleStudent 4,
          SelectAllFiltered (students_upto 9 12), AddClicked]"]
    by blast
  have len: "length (map int [2..<102]) = 100"
    by simp
  from fits len over too_many unselected run show ?thesis
    by blast
qed


end
